theory Spec2Isabelle
  imports Main "HOL-Library.Word"
begin

section \<open>Machine types\<close>

text \<open>
  The driver works on fixed-width integers. \<open>int16_t\<close> and \<open>uint16_t\<close> are both
  16-bit words here: \<open>static_cast<int16_t>\<close> of a register keeps the bit pattern, and a
  signed comparison reads the word with \<open>sint\<close>, an unsigned one with \<open>unat\<close>.
\<close>

type_synonym u8 = "8 word"
type_synonym u16 = "16 word"
type_synonym i16 = "16 word"
type_synonym u32 = "32 word"
type_synonym addr = nat

section \<open>Transport results\<close>

text \<open>
  The enumeration \<open>ModbusError\<close> is declared by the transport library. Its members are
  the ones the \<open>switch\<close> of \<open>modbusErrorToString\<close> names; \<open>UNLISTED\<close> stands for
  any other code, which the \<open>default\<close> arm receives.
\<close>

datatype ModbusError =
    SUCCESS
  | ILLEGAL_FUNCTION
  | ILLEGAL_DATA_ADDRESS
  | ILLEGAL_DATA_VALUE
  | SLAVE_DEVICE_FAILURE
  | TIMEOUT
  | CRC_ERROR
  | INVALID_RESPONSE
  | QUEUE_FULL
  | NOT_INITIALIZED
  | COMMUNICATION_ERROR
  | INVALID_PARAMETER
  | RESOURCE_ERROR
  | NULL_POINTER
  | NOT_SUPPORTED
  | MUTEX_ERROR
  | INVALID_DATA_LENGTH
  | DEVICE_NOT_FOUND
  | RESOURCE_CREATION_FAILED
  | INVALID_ADDRESS
  | UNLISTED

fun modbusErrorToString :: "ModbusError \<Rightarrow> string" where
  "modbusErrorToString SUCCESS = ''Success''"
| "modbusErrorToString ILLEGAL_FUNCTION = ''Illegal function''"
| "modbusErrorToString ILLEGAL_DATA_ADDRESS = ''Illegal data address''"
| "modbusErrorToString ILLEGAL_DATA_VALUE = ''Illegal data value''"
| "modbusErrorToString SLAVE_DEVICE_FAILURE = ''Slave device failure''"
| "modbusErrorToString TIMEOUT = ''Timeout''"
| "modbusErrorToString CRC_ERROR = ''CRC error''"
| "modbusErrorToString INVALID_RESPONSE = ''Invalid response''"
| "modbusErrorToString QUEUE_FULL = ''Queue full''"
| "modbusErrorToString NOT_INITIALIZED = ''Not initialized''"
| "modbusErrorToString COMMUNICATION_ERROR = ''Communication error''"
| "modbusErrorToString INVALID_PARAMETER = ''Invalid parameter''"
| "modbusErrorToString RESOURCE_ERROR = ''Resource error''"
| "modbusErrorToString NULL_POINTER = ''Null pointer''"
| "modbusErrorToString NOT_SUPPORTED = ''Not supported''"
| "modbusErrorToString MUTEX_ERROR = ''Mutex error''"
| "modbusErrorToString INVALID_DATA_LENGTH = ''Invalid data length''"
| "modbusErrorToString DEVICE_NOT_FOUND = ''Device not found''"
| "modbusErrorToString RESOURCE_CREATION_FAILED = ''Resource creation failed''"
| "modbusErrorToString INVALID_ADDRESS = ''Invalid address''"
| "modbusErrorToString UNLISTED = ''Unknown error''"

text \<open>
  \<open>readInputRegistersWithPriority\<close> returns a \<open>ModbusResult\<close>: either an error
  (\<open>isOk()\<close> is false, \<open>Inl\<close>) or the vector of registers read (\<open>Inr\<close>). The bus
  is outside the driver, so each operation takes the result of its one transport call as
  an argument, and the values of \<open>millis()\<close> it reads likewise.
\<close>

type_synonym ModbusResult = "ModbusError + u16 list"

section \<open>Driver state\<close>

record Config =
  address :: u8
  timeout :: u16
  retries :: u8

record TemperatureData =
  celsius :: i16
  timestamp :: u32
  valid :: bool
  error :: string

text \<open>
  The private fields of class \<open>ANDRTF3\<close>. A bound pointer is an address of caller-owned
  memory, \<open>None\<close> for \<open>nullptr\<close>.
\<close>

record ANDRTF3 =
  config :: Config
  lastReading :: TemperatureData
  connected :: bool
  asyncPending :: bool
  asyncStartTime :: u32
  temperaturePtr :: "addr option"
  validityPtr :: "addr option"
  consecutive0x0000Errors :: u8
  lastErrorTime :: u32

text \<open>
  The memory the bound pointers refer to: cells of type \<open>int16_t\<close> and cells of type
  \<open>bool\<close>, owned by the caller.
\<close>

record Memory =
  cells_i16 :: "addr \<Rightarrow> i16"
  cells_bool :: "addr \<Rightarrow> bool"

definition TEMP_MIN :: i16 where
  "TEMP_MIN = - 400"

definition TEMP_MAX :: i16 where
  "TEMP_MAX = 1250"

definition getDefaultConfig :: Config where
  "getDefaultConfig = \<lparr>address = 3, timeout = 200, retries = 3\<rparr>"

text \<open>
  The constructor. The \<open>String\<close> member \<open>error\<close> is default-constructed, hence empty.
  The base-class constructor, \<open>setInitPhase\<close> and \<open>registerDevice\<close> belong to the
  device framework and touch none of the fields below.
\<close>

definition ANDRTF3_ctor :: "u8 \<Rightarrow> ANDRTF3" where
  "ANDRTF3_ctor address0 =
     \<lparr>config = getDefaultConfig\<lparr>address := address0\<rparr>,
      lastReading = \<lparr>celsius = 0, timestamp = 0, valid = False, error = ''''\<rparr>,
      connected = False,
      asyncPending = False,
      asyncStartTime = 0,
      temperaturePtr = None,
      validityPtr = None,
      consecutive0x0000Errors = 0,
      lastErrorTime = 0\<rparr>"

definition setConfig :: "Config \<Rightarrow> ANDRTF3 \<Rightarrow> ANDRTF3" where
  "setConfig c s = s\<lparr>config := c\<rparr>"

definition getTemperature :: "ANDRTF3 \<Rightarrow> i16" where
  "getTemperature s = celsius (lastReading s)"

definition isConnected :: "ANDRTF3 \<Rightarrow> bool" where
  "isConnected s = connected s"

definition bindTemperaturePointers :: "addr option \<Rightarrow> addr option \<Rightarrow> ANDRTF3 \<Rightarrow> ANDRTF3" where
  "bindTemperaturePointers tempPtr validPtr s =
     s\<lparr>temperaturePtr := tempPtr, validityPtr := validPtr\<rparr>"

section \<open>The acquisition cycle\<close>

text \<open>
  \<open>performRead\<close>, with \<open>now\<close> the value of \<open>millis()\<close> and \<open>result\<close> what the transport
  returned. The log macros and the calls into the external \<open>ModbusErrorTracker\<close> write
  none of the driver's fields and are left out; the branch on
  \<open>_consecutive0x0000Errors >= 2\<close> only chooses a log line. The counter is a
  \<open>uint8_t\<close>, so its increment wraps.
\<close>

definition performRead :: "u32 \<Rightarrow> ModbusResult \<Rightarrow> ANDRTF3 \<Rightarrow> bool \<times> ANDRTF3" where
  "performRead now result s =
     (case result of
        Inl err \<Rightarrow>
          (False, s\<lparr>lastReading := (lastReading s)\<lparr>valid := False,
                                                   error := modbusErrorToString err\<rparr>,
                     connected := False\<rparr>)
      | Inr values \<Rightarrow>
          (case values of
             [] \<Rightarrow>
               (False, s\<lparr>lastReading := (lastReading s)\<lparr>valid := False,
                                                        error := ''No data returned''\<rparr>,
                          connected := False\<rparr>)
           | v0 # _ \<Rightarrow>
               (let rawValue = v0 in
                if rawValue = 0 \<or> v0 = 0xFFFF then
                  (let n = consecutive0x0000Errors s + 1 in
                   (False, s\<lparr>consecutive0x0000Errors := n,
                              lastReading := (lastReading s)\<lparr>valid := False,
                                error := (if v0 = 0xFFFF then ''Modbus error 0xFFFF''
                                          else ''Sensor returned 0x0000'')\<rparr>,
                              connected := (unat n < 3),
                              lastErrorTime := now\<rparr>))
                else if sint rawValue < sint TEMP_MIN \<or> sint rawValue > sint TEMP_MAX then
                  (False, s\<lparr>lastReading := (lastReading s)\<lparr>valid := False,
                                               error := ''Temperature out of range''\<rparr>,
                             connected := False\<rparr>)
                else
                  (True, s\<lparr>lastReading := \<lparr>celsius = rawValue, timestamp = now,
                                             valid = True, error = ''''\<rparr>,
                            connected := True,
                            consecutive0x0000Errors := 0\<rparr>))))"

definition readTemperature :: "u32 \<Rightarrow> ModbusResult \<Rightarrow> ANDRTF3 \<Rightarrow> bool \<times> ANDRTF3" where
  "readTemperature now result s =
     (case performRead now result s of
        (success, s') \<Rightarrow>
          if \<not> success then (success, s'\<lparr>connected := False\<rparr>) else (success, s'))"

text \<open>
  \<open>requestTemperature\<close> reads \<open>millis()\<close> up to three times: \<open>t0\<close> in the staleness
  test (only evaluated while a cycle is pending), \<open>t1\<close> when the cycle starts, \<open>t2\<close>
  when it stores a result or a sentinel fault. The difference of two \<open>uint32_t\<close> wraps
  and is compared unsigned with the \<open>uint16_t\<close> timeout. On success it writes through
  the bound pointers.
\<close>

definition requestTemperature ::
  "u32 \<Rightarrow> u32 \<Rightarrow> u32 \<Rightarrow> ModbusResult \<Rightarrow> ANDRTF3 \<times> Memory \<Rightarrow> bool \<times> ANDRTF3 \<times> Memory" where
  "requestTemperature t0 t1 t2 result w =
     (case w of (s0, m) \<Rightarrow>
      (let s1 = (if asyncPending s0 \<and>
                    unat (t0 - asyncStartTime s0) > unat (timeout (config s0))
                 then s0\<lparr>asyncPending := False\<rparr> else s0)
       in
       if asyncPending s1 then (False, s1, m)
       else
        (let s = s1\<lparr>asyncPending := True, asyncStartTime := t1\<rparr> in
         case result of
           Inl err \<Rightarrow>
             (False, s\<lparr>asyncPending := False,
                        lastReading := (lastReading s)\<lparr>valid := False,
                                                      error := modbusErrorToString err\<rparr>,
                        connected := False\<rparr>, m)
         | Inr values \<Rightarrow>
             (case values of
                [] \<Rightarrow>
                  (False, s\<lparr>asyncPending := False,
                             lastReading := (lastReading s)\<lparr>valid := False,
                                                           error := ''No data returned''\<rparr>,
                             connected := False\<rparr>, m)
              | v0 # _ \<Rightarrow>
                  (let rawValue = v0 in
                   if rawValue = 0 \<or> v0 = 0xFFFF then
                     (let n = consecutive0x0000Errors s + 1 in
                      (False, s\<lparr>consecutive0x0000Errors := n,
                                 asyncPending := False,
                                 lastReading := (lastReading s)\<lparr>valid := False,
                                   error := (if v0 = 0xFFFF then ''Modbus error 0xFFFF''
                                             else ''Sensor returned 0x0000'')\<rparr>,
                                 connected := (unat n < 3),
                                 lastErrorTime := t2\<rparr>, m))
                   else if sint rawValue < sint TEMP_MIN \<or> sint rawValue > sint TEMP_MAX then
                     (False, s\<lparr>asyncPending := False,
                                lastReading := (lastReading s)\<lparr>valid := False,
                                                  error := ''Temperature out of range''\<rparr>,
                                connected := False\<rparr>, m)
                   else
                     (let s' = s\<lparr>lastReading := \<lparr>celsius = rawValue, timestamp = t2,
                                                    valid = True, error = ''''\<rparr>,
                                   connected := True,
                                   consecutive0x0000Errors := 0\<rparr>;
                          m1 = (case temperaturePtr s' of
                                  None \<Rightarrow> m
                                | Some p \<Rightarrow> m\<lparr>cells_i16 := (cells_i16 m)(p := rawValue)\<rparr>);
                          m2 = (case validityPtr s' of
                                  None \<Rightarrow> m1
                                | Some q \<Rightarrow> m1\<lparr>cells_bool := (cells_bool m1)(q := True)\<rparr>)
                      in (True, s'\<lparr>asyncPending := False\<rparr>, m2)))))))"

definition isReadComplete :: "ANDRTF3 \<Rightarrow> bool" where
  "isReadComplete s = (\<not> asyncPending s)"

text \<open>
  \<open>getAsyncResult\<close> copies the last reading into the caller's structure and returns its
  validity; the driver's state is not changed.
\<close>

definition getAsyncResult :: "ANDRTF3 \<Rightarrow> bool \<times> TemperatureData" where
  "getAsyncResult s = (valid (lastReading s), lastReading s)"

section \<open>Predicates used in the statements\<close>

text \<open>
  The situation in which \<open>requestTemperature\<close> is entered while an earlier cycle is
  pending and its age, at the time \<open>t0\<close> of the staleness test, is within the timeout.
\<close>

definition async_blocked :: "u32 \<Rightarrow> ANDRTF3 \<Rightarrow> bool" where
  "async_blocked t0 s =
     (asyncPending s \<and> unat (t0 - asyncStartTime s) \<le> unat (timeout (config s)))"

definition config_ok :: "Config \<Rightarrow> bool" where
  "config_ok c = (1 \<le> unat (address c) \<and> unat (address c) \<le> 247 \<and> 0 < unat (timeout c))"

definition reading_ok :: "TemperatureData \<Rightarrow> bool" where
  "reading_ok d =
     (valid d \<longrightarrow> error d = [] \<and> - 400 \<le> sint (celsius d) \<and> sint (celsius d) \<le> 1250)"

section \<open>Sequences of calls\<close>

text \<open>
  The calls a client can make on a driver object, each with the transport result and
  the clock values it meets, and their effect on the driver and on the caller's memory.
  \<open>readTemperature\<close> goes through \<open>performRead\<close>, which writes through no pointer.
  The protected callback \<open>onAsyncResponse\<close> is entered from the framework's queue
  only and is no call of the client.
\<close>

datatype operation =
    ReadTemperature u32 ModbusResult
  | RequestTemperature u32 u32 u32 ModbusResult
  | GetAsyncResult
  | SetConfig Config
  | BindTemperaturePointers "addr option" "addr option"

fun step :: "operation \<Rightarrow> ANDRTF3 \<times> Memory \<Rightarrow> ANDRTF3 \<times> Memory" where
  "step (ReadTemperature now result) (s, m) = (snd (readTemperature now result s), m)"
| "step (RequestTemperature t0 t1 t2 result) (s, m) =
     snd (requestTemperature t0 t1 t2 result (s, m))"
| "step GetAsyncResult (s, m) = (s, m)"
| "step (SetConfig c) (s, m) = (setConfig c s, m)"
| "step (BindTemperaturePointers tempPtr validPtr) (s, m) =
     (bindTemperaturePointers tempPtr validPtr s, m)"

fun run :: "operation list \<Rightarrow> ANDRTF3 \<times> Memory \<Rightarrow> ANDRTF3 \<times> Memory" where
  "run [] w = w"
| "run (x # xs) w = run xs (step x w)"

inductive reachable :: "ANDRTF3 \<times> Memory \<Rightarrow> bool" where
  constructed: "reachable (ANDRTF3_ctor a, m)"
| stepped: "reachable w \<Longrightarrow> reachable (step x w)"

text \<open>A memory whose cells all hold zero and false, for concrete runs.\<close>

definition Memory0 :: Memory where
  "Memory0 = \<lparr>cells_i16 = (\<lambda>_. 0), cells_bool = (\<lambda>_. False)\<rparr>"

section \<open>Basic facts\<close>

lemma sint_TEMP_MIN: "sint TEMP_MIN = - 400"
  by (simp add: TEMP_MIN_def)

lemma sint_TEMP_MAX: "sint TEMP_MAX = 1250"
  by (simp add: TEMP_MAX_def)

section \<open>Return value of the synchronous read\<close>

text \<open>
  C5. \<open>readTemperature\<close> returns true exactly when the transport call succeeded with a
  first register that is no sentinel and lies, read as signed, in [-400, 1250]; on a
  transport error, an empty reply, a sentinel or a range violation it returns false.
\<close>

theorem C5_readTemperature_true_iff_valid:
  "fst (readTemperature now result s) =
     (\<exists>r rest. result = Inr (r # rest) \<and> r \<noteq> 0 \<and> r \<noteq> 0xFFFF \<and>
                - 400 \<le> sint r \<and> sint r \<le> 1250)"
  by (auto simp: readTemperature_def performRead_def Let_def sint_TEMP_MIN sint_TEMP_MAX
           split: sum.splits list.splits)

lemmas read_defs = readTemperature_def performRead_def Let_def sint_TEMP_MIN sint_TEMP_MAX

lemmas req_defs = requestTemperature_def async_blocked_def Let_def sint_TEMP_MIN sint_TEMP_MAX

section \<open>Classification of a register\<close>

text \<open>
  C1. When the transport returns at least one register \<open>r\<close>, both \<open>performRead\<close> and
  a cycle of \<open>requestTemperature\<close> treat it thus: \<open>0x0000\<close> and \<open>0xFFFF\<close> are faults,
  the reading is marked invalid and the error text names the sentinel; any other \<open>r\<close>
  whose signed value lies in [-400, 1250] is stored as the reading, marked valid, with
  an empty error text; every remaining \<open>r\<close> marks the reading invalid with the error text
  "Temperature out of range".
\<close>

theorem C1_classification:
  "(case performRead now (Inr (r # rest)) s of (ok, s') \<Rightarrow>
      (r = 0 \<longrightarrow> \<not> ok \<and> \<not> valid (lastReading s') \<and>
                 error (lastReading s') = ''Sensor returned 0x0000'') \<and>
      (r = 0xFFFF \<longrightarrow> \<not> ok \<and> \<not> valid (lastReading s') \<and>
                 error (lastReading s') = ''Modbus error 0xFFFF'') \<and>
      (r \<noteq> 0 \<and> r \<noteq> 0xFFFF \<and> - 400 \<le> sint r \<and> sint r \<le> 1250 \<longrightarrow>
                 ok \<and> valid (lastReading s') \<and> celsius (lastReading s') = r \<and>
                 error (lastReading s') = []) \<and>
      (r \<noteq> 0 \<and> r \<noteq> 0xFFFF \<and> (sint r < - 400 \<or> 1250 < sint r) \<longrightarrow>
                 \<not> ok \<and> \<not> valid (lastReading s') \<and>
                 error (lastReading s') = ''Temperature out of range'')) \<and>
   (\<not> async_blocked t0 s \<longrightarrow>
    (case requestTemperature t0 t1 t2 (Inr (r # rest)) (s, m) of (ok, s', m') \<Rightarrow>
      (r = 0 \<longrightarrow> \<not> ok \<and> \<not> valid (lastReading s') \<and>
                 error (lastReading s') = ''Sensor returned 0x0000'') \<and>
      (r = 0xFFFF \<longrightarrow> \<not> ok \<and> \<not> valid (lastReading s') \<and>
                 error (lastReading s') = ''Modbus error 0xFFFF'') \<and>
      (r \<noteq> 0 \<and> r \<noteq> 0xFFFF \<and> - 400 \<le> sint r \<and> sint r \<le> 1250 \<longrightarrow>
                 ok \<and> valid (lastReading s') \<and> celsius (lastReading s') = r \<and>
                 error (lastReading s') = []) \<and>
      (r \<noteq> 0 \<and> r \<noteq> 0xFFFF \<and> (sint r < - 400 \<or> 1250 < sint r) \<longrightarrow>
                 \<not> ok \<and> \<not> valid (lastReading s') \<and>
                 error (lastReading s') = ''Temperature out of range'')))"
  (is "?sync \<and> (_ \<longrightarrow> ?async)")
proof (intro conjI impI)
  show ?sync
    by (auto simp: read_defs)
next
  assume "\<not> async_blocked t0 s"
  then show ?async
    by (cases "asyncPending s") (auto simp: req_defs)
qed

theorem C1_classification_witness:
  "\<not> async_blocked 0 (ANDRTF3_ctor 3) \<and>
   (case performRead 7 (Inr [0xFE70]) (ANDRTF3_ctor 3) of (ok, s') \<Rightarrow>
      ok \<and> valid (lastReading s') \<and> sint (celsius (lastReading s')) = - 400) \<and>
   (case performRead 7 (Inr [0xFE6F]) (ANDRTF3_ctor 3) of (ok, s') \<Rightarrow>
      \<not> ok \<and> error (lastReading s') = ''Temperature out of range'') \<and>
   (case requestTemperature 0 5 7 (Inr [0x0108]) (ANDRTF3_ctor 3, Memory0) of (ok, s', m') \<Rightarrow>
      ok \<and> valid (lastReading s') \<and> sint (celsius (lastReading s')) = 264) \<and>
   (case requestTemperature 0 5 7 (Inr [0]) (ANDRTF3_ctor 3, Memory0) of (ok, s', m') \<Rightarrow>
      \<not> ok \<and> error (lastReading s') = ''Sensor returned 0x0000'') \<and>
   (case requestTemperature 0 5 7 (Inr [0xFFFF]) (ANDRTF3_ctor 3, Memory0) of (ok, s', m') \<Rightarrow>
      \<not> ok \<and> error (lastReading s') = ''Modbus error 0xFFFF'')"
  using C1_classification [where now = 7 and r = "0xFE70" and rest = "[]" and s = "ANDRTF3_ctor 3"
          and ?t0.0 = 0 and ?t1.0 = 5 and ?t2.0 = 7 and m = Memory0]
        C1_classification [where now = 7 and r = "0xFE6F" and rest = "[]" and s = "ANDRTF3_ctor 3"
          and ?t0.0 = 0 and ?t1.0 = 5 and ?t2.0 = 7 and m = Memory0]
        C1_classification [where now = 7 and r = "0x0108" and rest = "[]" and s = "ANDRTF3_ctor 3"
          and ?t0.0 = 0 and ?t1.0 = 5 and ?t2.0 = 7 and m = Memory0]
        C1_classification [where now = 7 and r = "0" and rest = "[]" and s = "ANDRTF3_ctor 3"
          and ?t0.0 = 0 and ?t1.0 = 5 and ?t2.0 = 7 and m = Memory0]
        C1_classification [where now = 7 and r = "0xFFFF" and rest = "[]" and s = "ANDRTF3_ctor 3"
          and ?t0.0 = 0 and ?t1.0 = 5 and ?t2.0 = 7 and m = Memory0]
  by (simp add: async_blocked_def ANDRTF3_ctor_def split: prod.splits)

section \<open>An empty reply\<close>

text \<open>
  C10. When the transport call succeeds with an empty register sequence, the operation
  returns false, the reading is marked invalid with the error text "No data returned",
  the connected flag is false, and the stored value and timestamp are as before. This
  holds for \<open>readTemperature\<close> and for every cycle of \<open>requestTemperature\<close>; the text
  is none of the display strings of a transport error.
\<close>

theorem C10_empty_reply:
  "(case readTemperature now (Inr []) s of (ok, s') \<Rightarrow>
      \<not> ok \<and> \<not> valid (lastReading s') \<and> error (lastReading s') = ''No data returned'' \<and>
      \<not> connected s' \<and> celsius (lastReading s') = celsius (lastReading s) \<and>
      timestamp (lastReading s') = timestamp (lastReading s)) \<and>
   (\<not> async_blocked t0 s \<longrightarrow>
     (case requestTemperature t0 t1 t2 (Inr []) (s, m) of (ok, s', m') \<Rightarrow>
      \<not> ok \<and> \<not> valid (lastReading s') \<and> error (lastReading s') = ''No data returned'' \<and>
      \<not> connected s' \<and> celsius (lastReading s') = celsius (lastReading s) \<and>
      timestamp (lastReading s') = timestamp (lastReading s))) \<and>
   modbusErrorToString e \<noteq> ''No data returned''"
  (is "?sync \<and> (_ \<longrightarrow> ?async) \<and> ?distinct")
proof (intro conjI impI)
  show ?sync
    by (simp add: read_defs)
next
  assume "\<not> async_blocked t0 s"
  then show ?async
    by (cases "asyncPending s") (auto simp: req_defs)
next
  show ?distinct
    by (cases e) simp_all
qed

theorem C10_empty_reply_witness:
  "\<not> async_blocked 1000 ((ANDRTF3_ctor 3)\<lparr>asyncPending := True\<rparr>) \<and>
   (case requestTemperature 1000 1001 1002 (Inr [])
           ((ANDRTF3_ctor 3)\<lparr>asyncPending := True\<rparr>, Memory0) of
      (ok, s', m') \<Rightarrow>
        \<not> ok \<and> \<not> valid (lastReading s') \<and> error (lastReading s') = ''No data returned'' \<and>
        \<not> connected s' \<and> celsius (lastReading s') = 0 \<and> timestamp (lastReading s') = 0)"
  using C10_empty_reply [where now = 0 and s = "(ANDRTF3_ctor 3)\<lparr>asyncPending := True\<rparr>"
          and ?t0.0 = 1000 and ?t1.0 = 1001 and ?t2.0 = 1002 and m = Memory0 and e = TIMEOUT]
  by (simp add: async_blocked_def ANDRTF3_ctor_def getDefaultConfig_def split: prod.splits)

section \<open>A failed transport call\<close>

text \<open>
  C6. When the transport call returns an error \<open>e\<close>, the reading keeps its value and its
  timestamp; its valid flag becomes false and its error text is the display string of
  \<open>e\<close>. This holds for \<open>readTemperature\<close> and for every cycle of
  \<open>requestTemperature\<close>.
\<close>

theorem C6_transport_error:
  "(case readTemperature now (Inl e) s of (ok, s') \<Rightarrow>
      lastReading s' = (lastReading s)\<lparr>valid := False, error := modbusErrorToString e\<rparr> \<and>
      celsius (lastReading s') = celsius (lastReading s) \<and>
      timestamp (lastReading s') = timestamp (lastReading s) \<and>
      \<not> valid (lastReading s') \<and> error (lastReading s') = modbusErrorToString e) \<and>
   (\<not> async_blocked t0 s \<longrightarrow>
     (case requestTemperature t0 t1 t2 (Inl e) (s, m) of (ok, s', m') \<Rightarrow>
      lastReading s' = (lastReading s)\<lparr>valid := False, error := modbusErrorToString e\<rparr> \<and>
      celsius (lastReading s') = celsius (lastReading s) \<and>
      timestamp (lastReading s') = timestamp (lastReading s) \<and>
      \<not> valid (lastReading s') \<and> error (lastReading s') = modbusErrorToString e))"
  (is "?sync \<and> (_ \<longrightarrow> ?async)")
proof (intro conjI impI)
  show ?sync
    by (simp add: read_defs)
next
  assume "\<not> async_blocked t0 s"
  then show ?async
    by (cases "asyncPending s") (auto simp: req_defs)
qed

theorem C6_transport_error_witness:
  "\<not> async_blocked 0 (snd (readTemperature 9 (Inr [100]) (ANDRTF3_ctor 3))) \<and>
   (case readTemperature 20 (Inl CRC_ERROR) (snd (readTemperature 9 (Inr [100]) (ANDRTF3_ctor 3))) of
      (ok, s') \<Rightarrow>
        celsius (lastReading s') = 100 \<and> timestamp (lastReading s') = 9 \<and>
        \<not> valid (lastReading s') \<and> error (lastReading s') = ''CRC error'') \<and>
   (case requestTemperature 0 20 21 (Inl TIMEOUT)
           (snd (readTemperature 9 (Inr [100]) (ANDRTF3_ctor 3)), Memory0) of
      (ok, s', m') \<Rightarrow>
        celsius (lastReading s') = 100 \<and> timestamp (lastReading s') = 9 \<and>
        \<not> valid (lastReading s') \<and> error (lastReading s') = ''Timeout'')"
  using C6_transport_error [where now = 20 and e = CRC_ERROR
          and s = "snd (readTemperature 9 (Inr [100]) (ANDRTF3_ctor 3))"
          and ?t0.0 = 0 and ?t1.0 = 20 and ?t2.0 = 21 and m = Memory0]
        C6_transport_error [where now = 20 and e = TIMEOUT
          and s = "snd (readTemperature 9 (Inr [100]) (ANDRTF3_ctor 3))"
          and ?t0.0 = 0 and ?t1.0 = 20 and ?t2.0 = 21 and m = Memory0]
  by (simp add: async_blocked_def ANDRTF3_ctor_def read_defs split: prod.splits)

section \<open>A rejected register leaves the stored value\<close>

text \<open>
  C4. When the first register \<open>r\<close> of a successful transport call is rejected (it is a
  sentinel, or its signed value lies outside [-400, 1250]), the stored value and its
  timestamp stay as they were, the valid flag becomes false and the error text is set
  (not empty). This holds for \<open>readTemperature\<close> and for every cycle of
  \<open>requestTemperature\<close>. In particular, a cycle that stores 100 followed by a cycle
  that meets a sentinel \<open>f\<close> ends with the stored value 100 and the valid flag false.
\<close>

theorem C4_stale_on_rejection:
  "(r = 0 \<or> r = 0xFFFF \<or> sint r < - 400 \<or> 1250 < sint r \<longrightarrow>
      (case readTemperature now (Inr (r # rest)) s of (ok, s') \<Rightarrow>
         celsius (lastReading s') = celsius (lastReading s) \<and>
         timestamp (lastReading s') = timestamp (lastReading s) \<and>
         \<not> valid (lastReading s') \<and> error (lastReading s') \<noteq> []) \<and>
      (\<not> async_blocked t0 s \<longrightarrow>
        (case requestTemperature t0 t1 t2 (Inr (r # rest)) (s, m) of (ok, s', m') \<Rightarrow>
           celsius (lastReading s') = celsius (lastReading s) \<and>
           timestamp (lastReading s') = timestamp (lastReading s) \<and>
           \<not> valid (lastReading s') \<and> error (lastReading s') \<noteq> []))) \<and>
   (f = 0 \<or> f = 0xFFFF \<longrightarrow>
      celsius (lastReading (fst (run [ReadTemperature now (Inr (100 # rest)),
                                      ReadTemperature now' (Inr (f # rest'))] (s, m)))) = 100 \<and>
      \<not> valid (lastReading (fst (run [ReadTemperature now (Inr (100 # rest)),
                                       ReadTemperature now' (Inr (f # rest'))] (s, m)))) \<and>
      (\<not> async_blocked t0 s \<longrightarrow>
         celsius (lastReading (fst (run [RequestTemperature t0 t1 t2 (Inr (100 # rest)),
                                         RequestTemperature t3 t4 t5 (Inr (f # rest'))] (s, m)))) = 100 \<and>
         \<not> valid (lastReading (fst (run [RequestTemperature t0 t1 t2 (Inr (100 # rest)),
                                          RequestTemperature t3 t4 t5 (Inr (f # rest'))] (s, m))))))"
  (is "(?rej \<longrightarrow> ?sync \<and> (_ \<longrightarrow> ?async)) \<and> (?sent \<longrightarrow> ?c1 \<and> ?v1 \<and> (_ \<longrightarrow> ?c2 \<and> ?v2))")
proof (intro conjI impI)
  assume ?rej
  then show ?sync
    by (auto simp: read_defs)
next
  assume "?rej" and "\<not> async_blocked t0 s"
  then show ?async
    by (cases "asyncPending s") (auto simp: req_defs)
next
  assume ?sent
  then show ?c1
    by (auto simp: read_defs)
next
  assume ?sent
  then show ?v1
    by (auto simp: read_defs)
next
  assume "?sent" and "\<not> async_blocked t0 s"
  then show ?c2
    by (cases "asyncPending s") (auto simp: req_defs)
next
  assume "?sent" and "\<not> async_blocked t0 s"
  then show ?v2
    by (cases "asyncPending s") (auto simp: req_defs)
qed

theorem C4_stale_on_rejection_witness:
  "\<not> async_blocked 0 (ANDRTF3_ctor 3) \<and>
   (case readTemperature 8 (Inr [2000]) (ANDRTF3_ctor 3) of (ok, s') \<Rightarrow>
      celsius (lastReading s') = 0 \<and> timestamp (lastReading s') = 0 \<and>
      \<not> valid (lastReading s') \<and> error (lastReading s') = ''Temperature out of range'') \<and>
   celsius (lastReading (fst (run [RequestTemperature 0 1 2 (Inr [100]),
                                   RequestTemperature 3 4 5 (Inr [0])]
                                  (ANDRTF3_ctor 3, Memory0)))) = 100 \<and>
   \<not> valid (lastReading (fst (run [RequestTemperature 0 1 2 (Inr [100]),
                                    RequestTemperature 3 4 5 (Inr [0])]
                                   (ANDRTF3_ctor 3, Memory0))))"
  using C4_stale_on_rejection [where r = 2000 and f = 0 and now = 8 and now' = 9
          and rest = "[]" and rest' = "[]" and s = "ANDRTF3_ctor 3" and m = Memory0
          and ?t0.0 = 0 and ?t1.0 = 1 and ?t2.0 = 2 and ?t3.0 = 3 and ?t4.0 = 4 and ?t5.0 = 5]
  by (simp add: async_blocked_def ANDRTF3_ctor_def read_defs split: prod.splits)

section \<open>The gate of the asynchronous entry point\<close>

text \<open>
  C7. While a cycle is pending: if the time elapsed since it started, taken when
  \<open>requestTemperature\<close> is entered, does not exceed the configured timeout, the call
  returns false and changes nothing; if it exceeds the timeout, the call behaves as a
  call made with no cycle pending: it starts a new cycle (the start time becomes the
  current time) and returns what that cycle yields.
\<close>

theorem C7_pending_gate:
  "asyncPending s \<longrightarrow>
     (unat (t0 - asyncStartTime s) \<le> unat (timeout (config s)) \<longrightarrow>
        requestTemperature t0 t1 t2 result (s, m) = (False, s, m)) \<and>
     (unat (timeout (config s)) < unat (t0 - asyncStartTime s) \<longrightarrow>
        requestTemperature t0 t1 t2 result (s, m) =
          requestTemperature t0 t1 t2 result (s\<lparr>asyncPending := False\<rparr>, m) \<and>
        asyncStartTime (fst (snd (requestTemperature t0 t1 t2 result (s, m)))) = t1 \<and>
        fst (requestTemperature t0 t1 t2 result (s, m)) =
          (\<exists>r rest. result = Inr (r # rest) \<and> r \<noteq> 0 \<and> r \<noteq> 0xFFFF \<and>
                     - 400 \<le> sint r \<and> sint r \<le> 1250))"
  (is "_ \<longrightarrow> (?within \<longrightarrow> ?refused) \<and> (?stale \<longrightarrow> ?same \<and> ?started \<and> ?ret)")
proof (intro conjI impI)
  assume "asyncPending s" and ?within
  then show ?refused
    by (simp add: requestTemperature_def)
next
  assume p: "asyncPending s" and st: ?stale
  then show ?same
    by (simp add: requestTemperature_def)
  from p st show ?started
    by (auto simp: req_defs split: sum.splits list.splits)
  from p st show ?ret
    by (auto simp: req_defs split: sum.splits list.splits)
qed

theorem C7_pending_gate_witness:
  "asyncPending ((ANDRTF3_ctor 3)\<lparr>asyncPending := True, asyncStartTime := 1000\<rparr>) \<and>
   unat (1200 - asyncStartTime ((ANDRTF3_ctor 3)\<lparr>asyncPending := True, asyncStartTime := 1000\<rparr>))
     \<le> unat (timeout (config ((ANDRTF3_ctor 3)\<lparr>asyncPending := True, asyncStartTime := 1000\<rparr>))) \<and>
   requestTemperature 1200 1200 1201 (Inr [264])
       ((ANDRTF3_ctor 3)\<lparr>asyncPending := True, asyncStartTime := 1000\<rparr>, Memory0) =
     (False, (ANDRTF3_ctor 3)\<lparr>asyncPending := True, asyncStartTime := 1000\<rparr>, Memory0) \<and>
   unat (timeout (config ((ANDRTF3_ctor 3)\<lparr>asyncPending := True, asyncStartTime := 1000\<rparr>)))
     < unat (1201 - asyncStartTime ((ANDRTF3_ctor 3)\<lparr>asyncPending := True, asyncStartTime := 1000\<rparr>)) \<and>
   fst (requestTemperature 1201 1202 1203 (Inr [264])
       ((ANDRTF3_ctor 3)\<lparr>asyncPending := True, asyncStartTime := 1000\<rparr>, Memory0)) \<and>
   asyncStartTime (fst (snd (requestTemperature 1201 1202 1203 (Inr [264])
       ((ANDRTF3_ctor 3)\<lparr>asyncPending := True, asyncStartTime := 1000\<rparr>, Memory0)))) = 1202"
  using C7_pending_gate [where s = "(ANDRTF3_ctor 3)\<lparr>asyncPending := True, asyncStartTime := 1000\<rparr>"
          and ?t0.0 = 1200 and ?t1.0 = 1200 and ?t2.0 = 1201 and result = "Inr [264]"
          and m = Memory0]
        C7_pending_gate [where s = "(ANDRTF3_ctor 3)\<lparr>asyncPending := True, asyncStartTime := 1000\<rparr>"
          and ?t0.0 = 1201 and ?t1.0 = 1202 and ?t2.0 = 1203 and result = "Inr [264]"
          and m = Memory0]
  by (simp add: ANDRTF3_ctor_def getDefaultConfig_def req_defs)

section \<open>The reading invariant\<close>

lemma ctor_reading_ok: "reading_ok (lastReading (ANDRTF3_ctor a))"
  by (simp add: reading_ok_def ANDRTF3_ctor_def)

lemma readTemperature_reading_ok:
  "reading_ok (lastReading s) \<Longrightarrow> reading_ok (lastReading (snd (readTemperature now result s)))"
  by (auto simp: reading_ok_def read_defs split: sum.splits list.splits)

lemma requestTemperature_reading_ok:
  "reading_ok (lastReading s) \<Longrightarrow>
   reading_ok (lastReading (fst (snd (requestTemperature t0 t1 t2 result (s, m)))))"
  by (auto simp: reading_ok_def requestTemperature_def Let_def sint_TEMP_MIN sint_TEMP_MAX
           split: sum.splits list.splits)

lemma step_reading_ok:
  "reading_ok (lastReading (fst w)) \<Longrightarrow> reading_ok (lastReading (fst (step x w)))"
proof (cases w)
  case (Pair s m)
  assume "reading_ok (lastReading (fst w))"
  with Pair show ?thesis
    by (cases x)
       (simp_all add: readTemperature_reading_ok requestTemperature_reading_ok
                      setConfig_def bindTemperaturePointers_def)
qed

lemma reachable_reading_ok: "reachable w \<Longrightarrow> reading_ok (lastReading (fst w))"
  by (induction rule: reachable.induct) (simp_all add: ctor_reading_ok step_reading_ok)

text \<open>
  C8. In every state reached from a freshly constructed driver by any sequence of
  \<open>readTemperature\<close>, \<open>requestTemperature\<close>, \<open>getAsyncResult\<close>, \<open>setConfig\<close> and
  \<open>bindTemperaturePointers\<close> calls, with any transport results and clock values: if the
  reading's valid flag is true then its error text is empty and its value, read as
  signed, lies in [-400, 1250].
\<close>

theorem C8_valid_reading_in_range:
  "reachable (s, m) \<Longrightarrow> valid (lastReading s) \<Longrightarrow>
     error (lastReading s) = [] \<and>
     - 400 \<le> sint (celsius (lastReading s)) \<and> sint (celsius (lastReading s)) \<le> 1250"
  using reachable_reading_ok [of "(s, m)"] by (simp add: reading_ok_def)

theorem C8_valid_reading_in_range_witness:
  "reachable (step (RequestTemperature 0 5 6 (Inr [0xFE70])) (ANDRTF3_ctor 3, Memory0)) \<and>
   valid (lastReading (fst (step (RequestTemperature 0 5 6 (Inr [0xFE70])) (ANDRTF3_ctor 3, Memory0)))) \<and>
   error (lastReading (fst (step (RequestTemperature 0 5 6 (Inr [0xFE70])) (ANDRTF3_ctor 3, Memory0)))) = [] \<and>
   sint (celsius (lastReading (fst (step (RequestTemperature 0 5 6 (Inr [0xFE70]))
                                         (ANDRTF3_ctor 3, Memory0))))) = - 400"
proof -
  let ?w = "step (RequestTemperature 0 5 6 (Inr [0xFE70])) (ANDRTF3_ctor 3, Memory0)"
  have r: "reachable ?w"
    by (rule reachable.stepped) (rule reachable.constructed)
  have v: "valid (lastReading (fst ?w))"
    by (simp add: req_defs ANDRTF3_ctor_def)
  have c: "sint (celsius (lastReading (fst ?w))) = - 400"
    by (simp add: req_defs ANDRTF3_ctor_def)
  from r have "reachable (fst ?w, snd ?w)" by simp
  from C8_valid_reading_in_range [OF this v] r v c show ?thesis
    by blast
qed

section \<open>The configuration\<close>

lemma config_fold_setConfig:
  "config (fold setConfig cs s) = (if cs = [] then config s else last cs)"
  by (induction cs arbitrary: s) (simp_all add: setConfig_def)

text \<open>
  C9 as stated fails: the constructor stores its address argument unchecked, and
  \<open>setConfig\<close> stores any configuration. A driver constructed with address 0 holds
  address 0, and after \<open>setConfig\<close> with timeout 0 it holds timeout 0.
\<close>

theorem C9_counterexample:
  "reachable (ANDRTF3_ctor 0, Memory0) \<and>
   address (config (ANDRTF3_ctor 0)) = 0 \<and>
   \<not> config_ok (config (ANDRTF3_ctor 0)) \<and>
   timeout (config (setConfig \<lparr>address = 3, timeout = 0, retries = 3\<rparr> (ANDRTF3_ctor 3))) = 0 \<and>
   \<not> config_ok (config (setConfig \<lparr>address = 3, timeout = 0, retries = 3\<rparr> (ANDRTF3_ctor 3)))"
proof -
  have "reachable (ANDRTF3_ctor 0, Memory0)"
    by (rule reachable.constructed)
  then show ?thesis
    by (simp add: ANDRTF3_ctor_def getDefaultConfig_def setConfig_def config_ok_def)
qed

text \<open>
  C9, amended. After construction with address \<open>a\<close> and the \<open>setConfig\<close> calls \<open>cs\<close>
  in order, the driver holds the default configuration with address \<open>a\<close> (timeout 200,
  3 retries) when there was no call, and the configuration of the last call otherwise;
  nothing is validated. Hence, when \<open>a\<close> lies in [1, 247] and every configuration passed
  to \<open>setConfig\<close> has its address in [1, 247] and a positive timeout, the configuration
  held has its address in [1, 247] and a positive timeout.
\<close>

theorem C9_config_as_given:
  "config (fold setConfig cs (ANDRTF3_ctor a)) =
     (if cs = [] then \<lparr>address = a, timeout = 200, retries = 3\<rparr> else last cs) \<and>
   (1 \<le> unat a \<and> unat a \<le> 247 \<and> (\<forall>c \<in> set cs. config_ok c) \<longrightarrow>
      config_ok (config (fold setConfig cs (ANDRTF3_ctor a))))"
proof (intro conjI impI)
  show "config (fold setConfig cs (ANDRTF3_ctor a)) =
          (if cs = [] then \<lparr>address = a, timeout = 200, retries = 3\<rparr> else last cs)"
    by (simp add: config_fold_setConfig ANDRTF3_ctor_def getDefaultConfig_def)
next
  assume h: "1 \<le> unat a \<and> unat a \<le> 247 \<and> (\<forall>c \<in> set cs. config_ok c)"
  show "config_ok (config (fold setConfig cs (ANDRTF3_ctor a)))"
  proof (cases "cs = []")
    case True
    with h show ?thesis
      by (simp add: ANDRTF3_ctor_def getDefaultConfig_def config_ok_def)
  next
    case False
    then have "last cs \<in> set cs" by simp
    with h False show ?thesis
      by (simp add: config_fold_setConfig)
  qed
qed

theorem C9_config_as_given_witness:
  "1 \<le> unat (3 :: u8) \<and> unat (3 :: u8) \<le> 247 \<and>
   config_ok \<lparr>address = 5, timeout = 1000, retries = 3\<rparr> \<and>
   config (fold setConfig [\<lparr>address = 5, timeout = 1000, retries = 3\<rparr>] (ANDRTF3_ctor 3)) =
     \<lparr>address = 5, timeout = 1000, retries = 3\<rparr> \<and>
   config_ok (config (fold setConfig [\<lparr>address = 5, timeout = 1000, retries = 3\<rparr>]
                                     (ANDRTF3_ctor 3)))"
  using C9_config_as_given [where a = 3 and cs = "[\<lparr>address = 5, timeout = 1000, retries = 3\<rparr>]"]
  by (simp add: config_ok_def)

section \<open>The connected flag\<close>

text \<open>
  C2 as stated fails: a range violation sets the connected flag to false at once and
  does not count. After one accepted register (connected, counter 0) a single register
  2000 through \<open>requestTemperature\<close> leaves the driver disconnected with the counter
  still 0.
\<close>

theorem C2_counterexample:
  "connected (fst (run [RequestTemperature 0 1 2 (Inr [264])] (ANDRTF3_ctor 3, Memory0))) \<and>
   \<not> connected (fst (run [RequestTemperature 0 1 2 (Inr [264]),
                           RequestTemperature 3 4 5 (Inr [2000])] (ANDRTF3_ctor 3, Memory0))) \<and>
   unat (consecutive0x0000Errors
           (fst (run [RequestTemperature 0 1 2 (Inr [264]),
                      RequestTemperature 3 4 5 (Inr [2000])] (ANDRTF3_ctor 3, Memory0)))) = 0"
  by (simp add: req_defs ANDRTF3_ctor_def)

text \<open>
  C2, amended. The hysteresis covers the sentinel faults met by cycles of
  \<open>requestTemperature\<close>. Such a cycle adds one to the counter (below its limit of 255)
  and leaves the driver connected exactly when the new count is less than 3; so from a
  count of 0 the first and the second sentinel in a row leave it connected and the third
  disconnects it. An accepted register, through \<open>readTemperature\<close> or
  \<open>requestTemperature\<close>, sets the counter to 0 and the connected flag to true. A range
  violation, through either entry point, sets the connected flag to false and leaves the
  counter as it was.
\<close>

theorem C2_hysteresis_amended:
  "(r \<noteq> 0 \<and> r \<noteq> 0xFFFF \<and> - 400 \<le> sint r \<and> sint r \<le> 1250 \<longrightarrow>
      (case readTemperature now (Inr (r # rest)) s of (ok, s') \<Rightarrow>
         consecutive0x0000Errors s' = 0 \<and> connected s') \<and>
      (\<not> async_blocked t0 s \<longrightarrow>
        (case requestTemperature t0 t1 t2 (Inr (r # rest)) (s, m) of (ok, s', m') \<Rightarrow>
           consecutive0x0000Errors s' = 0 \<and> connected s'))) \<and>
   ((r = 0 \<or> r = 0xFFFF) \<and> \<not> async_blocked t0 s \<and> unat (consecutive0x0000Errors s) < 255 \<longrightarrow>
      (case requestTemperature t0 t1 t2 (Inr (r # rest)) (s, m) of (ok, s', m') \<Rightarrow>
         unat (consecutive0x0000Errors s') = unat (consecutive0x0000Errors s) + 1 \<and>
         connected s' = (unat (consecutive0x0000Errors s') < 3))) \<and>
   (r \<noteq> 0 \<and> r \<noteq> 0xFFFF \<and> (sint r < - 400 \<or> 1250 < sint r) \<longrightarrow>
      (case readTemperature now (Inr (r # rest)) s of (ok, s') \<Rightarrow>
         \<not> connected s' \<and> consecutive0x0000Errors s' = consecutive0x0000Errors s) \<and>
      (\<not> async_blocked t0 s \<longrightarrow>
        (case requestTemperature t0 t1 t2 (Inr (r # rest)) (s, m) of (ok, s', m') \<Rightarrow>
           \<not> connected s' \<and> consecutive0x0000Errors s' = consecutive0x0000Errors s))) \<and>
   ((f1 = 0 \<or> f1 = 0xFFFF) \<and> (f2 = 0 \<or> f2 = 0xFFFF) \<and> (f3 = 0 \<or> f3 = 0xFFFF) \<and>
    \<not> async_blocked t0 s \<and> consecutive0x0000Errors s = 0 \<longrightarrow>
      connected (fst (run [RequestTemperature t0 t1 t2 (Inr (f1 # rest1))] (s, m))) \<and>
      connected (fst (run [RequestTemperature t0 t1 t2 (Inr (f1 # rest1)),
                           RequestTemperature t3 t4 t5 (Inr (f2 # rest2))] (s, m))) \<and>
      \<not> connected (fst (run [RequestTemperature t0 t1 t2 (Inr (f1 # rest1)),
                              RequestTemperature t3 t4 t5 (Inr (f2 # rest2)),
                              RequestTemperature t6 t7 t8 (Inr (f3 # rest3))] (s, m))))"
  (is "(?acc \<longrightarrow> ?res_sync \<and> (_ \<longrightarrow> ?res_async)) \<and> (?sentinel \<longrightarrow> ?count) \<and>
       (?range \<longrightarrow> ?off_sync \<and> (_ \<longrightarrow> ?off_async)) \<and> (?three \<longrightarrow> ?one \<and> ?two \<and> ?third)")
proof (intro conjI impI)
  assume ?acc
  then show ?res_sync
    by (auto simp: read_defs)
next
  assume "?acc" and "\<not> async_blocked t0 s"
  then show ?res_async
    by (cases "asyncPending s") (auto simp: req_defs)
next
  assume a: ?sentinel
  then have "unat (consecutive0x0000Errors s + 1) = unat (consecutive0x0000Errors s) + 1"
    by (simp add: unat_word_ariths)
  with a show ?count
    by (cases "asyncPending s") (auto simp: req_defs)
next
  assume ?range
  then show ?off_sync
    by (auto simp: read_defs)
next
  assume "?range" and "\<not> async_blocked t0 s"
  then show ?off_async
    by (cases "asyncPending s") (auto simp: req_defs)
next
  assume ?three
  then show ?one
    by (cases "asyncPending s") (auto simp: req_defs)
next
  assume ?three
  then show ?two
    by (cases "asyncPending s") (auto simp: req_defs)
next
  assume ?three
  then show ?third
    by (cases "asyncPending s") (auto simp: req_defs)
qed

theorem C2_hysteresis_amended_witness:
  "\<not> async_blocked 0 (ANDRTF3_ctor 3) \<and>
   unat (consecutive0x0000Errors (ANDRTF3_ctor 3)) < 255 \<and>
   consecutive0x0000Errors (ANDRTF3_ctor 3) = 0 \<and>
   (case requestTemperature 0 1 2 (Inr [0]) (ANDRTF3_ctor 3, Memory0) of (ok, s', m') \<Rightarrow>
      unat (consecutive0x0000Errors s') = 1 \<and> connected s') \<and>
   connected (fst (run [RequestTemperature 0 1 2 (Inr [0]),
                        RequestTemperature 3 4 5 (Inr [0xFFFF])] (ANDRTF3_ctor 3, Memory0))) \<and>
   \<not> connected (fst (run [RequestTemperature 0 1 2 (Inr [0]),
                           RequestTemperature 3 4 5 (Inr [0xFFFF]),
                           RequestTemperature 6 7 8 (Inr [0])] (ANDRTF3_ctor 3, Memory0))) \<and>
   (case readTemperature 9 (Inr [264]) (ANDRTF3_ctor 3) of (ok, s') \<Rightarrow>
      consecutive0x0000Errors s' = 0 \<and> connected s') \<and>
   (case requestTemperature 0 1 2 (Inr [2000]) (ANDRTF3_ctor 3, Memory0) of (ok, s', m') \<Rightarrow>
      \<not> connected s' \<and> consecutive0x0000Errors s' = 0)"
  using C2_hysteresis_amended [where r = 0 and ?f1.0 = 0 and ?f2.0 = "0xFFFF" and ?f3.0 = 0
          and rest = "[]" and ?rest1.0 = "[]" and ?rest2.0 = "[]" and ?rest3.0 = "[]"
          and s = "ANDRTF3_ctor 3" and m = Memory0 and now = 9
          and ?t0.0 = 0 and ?t1.0 = 1 and ?t2.0 = 2 and ?t3.0 = 3 and ?t4.0 = 4 and ?t5.0 = 5
          and ?t6.0 = 6 and ?t7.0 = 7 and ?t8.0 = 8]
        C2_hysteresis_amended [where r = 264 and ?f1.0 = 0 and ?f2.0 = "0xFFFF" and ?f3.0 = 0
          and rest = "[]" and ?rest1.0 = "[]" and ?rest2.0 = "[]" and ?rest3.0 = "[]"
          and s = "ANDRTF3_ctor 3" and m = Memory0 and now = 9
          and ?t0.0 = 0 and ?t1.0 = 1 and ?t2.0 = 2 and ?t3.0 = 3 and ?t4.0 = 4 and ?t5.0 = 5
          and ?t6.0 = 6 and ?t7.0 = 7 and ?t8.0 = 8]
        C2_hysteresis_amended [where r = 2000 and ?f1.0 = 0 and ?f2.0 = "0xFFFF" and ?f3.0 = 0
          and rest = "[]" and ?rest1.0 = "[]" and ?rest2.0 = "[]" and ?rest3.0 = "[]"
          and s = "ANDRTF3_ctor 3" and m = Memory0 and now = 9
          and ?t0.0 = 0 and ?t1.0 = 1 and ?t2.0 = 2 and ?t3.0 = 3 and ?t4.0 = 4 and ?t5.0 = 5
          and ?t6.0 = 6 and ?t7.0 = 7 and ?t8.0 = 8]
  by (simp add: async_blocked_def ANDRTF3_ctor_def split: prod.splits)

text \<open>
  Two facts outside the amended statement. Through \<open>readTemperature\<close> a sentinel
  disconnects at once, whatever the count: the wrapper clears the flag that
  \<open>performRead\<close> has just computed from the counter. And the counter is eight bits wide:
  at 255 the next sentinel wraps it to 0, which sets the connected flag.
\<close>

lemma readTemperature_sentinel_disconnects:
  "r = 0 \<or> r = 0xFFFF \<Longrightarrow>
   connected (snd (performRead now (Inr (r # rest)) s)) =
     (unat (consecutive0x0000Errors s + 1) < 3) \<and>
   \<not> connected (snd (readTemperature now (Inr (r # rest)) s))"
  by (auto simp: read_defs)

lemma requestTemperature_counter_wraps:
  "r = 0 \<or> r = 0xFFFF \<Longrightarrow> \<not> async_blocked t0 s \<Longrightarrow> consecutive0x0000Errors s = 255 \<Longrightarrow>
   consecutive0x0000Errors (fst (snd (requestTemperature t0 t1 t2 (Inr (r # rest)) (s, m)))) = 0 \<and>
   connected (fst (snd (requestTemperature t0 t1 t2 (Inr (r # rest)) (s, m))))"
  by (cases "asyncPending s") (auto simp: req_defs)

section \<open>The bound slots\<close>

text \<open>
  What the code does with the bound slots. A cycle of \<open>requestTemperature\<close> that
  accepts a register writes it into the value slot and true into the valid slot. A
  cycle that does not accept one writes into no cell at all.
\<close>

lemma requestTemperature_publishes_accepted:
  assumes "\<not> async_blocked t0 s"
    and "r \<noteq> 0" and "r \<noteq> 0xFFFF" and "- 400 \<le> sint r" and "sint r \<le> 1250"
    and "temperaturePtr s = Some p" and "validityPtr s = Some q"
  shows "cells_i16 (snd (snd (requestTemperature t0 t1 t2 (Inr (r # rest)) (s, m)))) p = r"
    and "cells_bool (snd (snd (requestTemperature t0 t1 t2 (Inr (r # rest)) (s, m)))) q"
  using assms by (cases "asyncPending s"; auto simp: req_defs)+

lemma requestTemperature_rejection_keeps_memory:
  "\<not> fst (requestTemperature t0 t1 t2 result (s, m)) \<Longrightarrow>
   snd (snd (requestTemperature t0 t1 t2 result (s, m))) = m"
  by (auto simp: requestTemperature_def Let_def split: sum.splits list.splits if_splits)

text \<open>
  C3, evaluated where it fails. With the value slot at cell 0 and the valid slot at
  cell 1 bound, both cells cleared: an accepted register 264 through
  \<open>requestTemperature\<close> writes 264 and true into the slots; a sentinel in the next
  cycle marks the reading invalid, yet the valid slot still holds true. An accepted
  register 264 through \<open>readTemperature\<close> is stored as the reading, yet the slots hold
  0 and false as before.
\<close>

theorem C3_binding_at_failing_input:
  "cells_i16 (snd (run [BindTemperaturePointers (Some 0) (Some 1),
                        RequestTemperature 0 1 2 (Inr [264])] (ANDRTF3_ctor 3, Memory0))) 0 = 264 \<and>
   cells_bool (snd (run [BindTemperaturePointers (Some 0) (Some 1),
                         RequestTemperature 0 1 2 (Inr [264])] (ANDRTF3_ctor 3, Memory0))) 1 \<and>
   \<not> valid (lastReading (fst (run [BindTemperaturePointers (Some 0) (Some 1),
                                    RequestTemperature 0 1 2 (Inr [264]),
                                    RequestTemperature 3 4 5 (Inr [0])]
                                   (ANDRTF3_ctor 3, Memory0)))) \<and>
   cells_bool (snd (run [BindTemperaturePointers (Some 0) (Some 1),
                         RequestTemperature 0 1 2 (Inr [264]),
                         RequestTemperature 3 4 5 (Inr [0])] (ANDRTF3_ctor 3, Memory0))) 1 \<and>
   cells_i16 (snd (run [BindTemperaturePointers (Some 0) (Some 1),
                        RequestTemperature 0 1 2 (Inr [264]),
                        RequestTemperature 3 4 5 (Inr [0])] (ANDRTF3_ctor 3, Memory0))) 0 = 264 \<and>
   valid (lastReading (fst (run [BindTemperaturePointers (Some 0) (Some 1),
                                 ReadTemperature 2 (Inr [264])] (ANDRTF3_ctor 3, Memory0)))) \<and>
   celsius (lastReading (fst (run [BindTemperaturePointers (Some 0) (Some 1),
                                   ReadTemperature 2 (Inr [264])] (ANDRTF3_ctor 3, Memory0)))) = 264 \<and>
   cells_i16 (snd (run [BindTemperaturePointers (Some 0) (Some 1),
                        ReadTemperature 2 (Inr [264])] (ANDRTF3_ctor 3, Memory0))) 0 = 0 \<and>
   \<not> cells_bool (snd (run [BindTemperaturePointers (Some 0) (Some 1),
                            ReadTemperature 2 (Inr [264])] (ANDRTF3_ctor 3, Memory0))) 1"
  by (simp add: req_defs read_defs ANDRTF3_ctor_def bindTemperaturePointers_def Memory0_def)

end
